theory Spec2Isabelle
  imports Complex_Main
begin

section \<open>Values, typed attributes and nodes\<close>

text \<open>
  The sources import \<^verbatim>\<open>Node\<close>, \<^verbatim>\<open>Handover\<close>, \<^verbatim>\<open>ANLType\<close>, \<^verbatim>\<open>ANLValue\<close> and
  \<^verbatim>\<open>PreservationProtocol\<close> from a module \<^verbatim>\<open>runtime\<close> that is not among them. The
  data they build is read off the call sites: \<^verbatim>\<open>ANLValue(type, shape, data)\<close> with a
  field \<^verbatim>\<open>.data\<close>, \<^verbatim>\<open>Node(id, state_space, attributes)\<close> with fields \<^verbatim>\<open>.id\<close> and
  \<^verbatim>\<open>.attributes\<close> (a dict from names to ANLValues).

  A Python float stored in an attribute is \<open>PyNum x\<close>, \<open>x\<close> its value (infinities
  and NaN cannot be stored, and the sign of zero is not kept). \<^verbatim>\<open>RobotModel.evolve\<close> and
  the predator-prey demo compute on these values with the arithmetic of \<^typ>\<open>real\<close>;
  the demo's sums are exact in doubles. The functions whose result depends on rounding
  or on the difference between Python's ints and floats (\<^verbatim>\<open>seldon_crisis\<close>,
  \<^verbatim>\<open>update_phase\<close>, \<^verbatim>\<open>mentalic_manipulation\<close>, the calls of \<^verbatim>\<open>float()\<close> and the
  decimal literals that are not doubles) use the binary64 arithmetic of the section
  on Python numbers.
\<close>

datatype ANLType = SCALAR | VECTOR | FUNCTION | NODE

datatype PreservationProtocol = CONSERVATIVE | TRANSMUTATIVE

type_synonym ref = nat

text \<open>
  The Python values stored in attributes: numbers, booleans, strings, numpy arrays
  (\<^verbatim>\<open>np.array(coords)\<close>, \<^verbatim>\<open>np.array(categories)\<close>), dicts (\<^verbatim>\<open>relations\<close>) and
  references to nodes (\<^verbatim>\<open>core_ontology\<close>).
\<close>

datatype pydata =
    PyNum real
  | PyBool bool
  | PyStr string
  | PyArray "pydata list"
  | PyDict "(string \<times> pydata) list"
  | PyNode ref

datatype error =
    KeyError string
  | TypeError
  | OverflowError
  | AttributeError
  | Unmodelled
  | ShapeMismatch
  | TypeMismatch
  | UnknownAttribute
  | MissingFidelity
  | FidelityOutOfRange
  | HandoverExecutionFailed string error

record ANLValue =
  val_type :: ANLType
  shape :: "nat list"
  data :: pydata

text \<open>
  \<^verbatim>\<open>Ontology\<close> subclasses \<^verbatim>\<open>Node\<close> and adds the method \<^verbatim>\<open>translate\<close>; a call
  \<^verbatim>\<open>target.translate(...)\<close> on an object of another class raises AttributeError. A node
  therefore carries its class. (\<^verbatim>\<open>ASI\<close> and \<^verbatim>\<open>OntologicalGateway\<close> of
  ontological\_engine.py are not modelled.)
\<close>

datatype pyclass = Class_Node | Class_Ontology

record Node =
  py_class :: pyclass
  node_id :: string
  state_space :: ANLType
  attributes :: "string \<rightharpoonup> ANLValue"

text \<open>
  Nodes are mutable objects that handovers and closures hold by reference. Where that
  matters the objects live in a heap; an address with no object stands for \<^verbatim>\<open>None\<close>,
  and reading a field of it raises AttributeError.
\<close>

type_synonym heap = "ref \<rightharpoonup> Node"

text \<open>
  The number an arithmetic operator sees in a Python value: a bool counts as 0 or 1,
  a string or a dict raises TypeError. Arithmetic on a numpy array (elementwise, with
  dtype casting rules) and on a node object is outside the model.
\<close>

fun py_float :: "pydata \<Rightarrow> error + real" where
  "py_float (PyNum x) = Inr x"
| "py_float (PyBool b) = Inr (if b then 1 else 0)"
| "py_float (PyStr s) = Inl TypeError"
| "py_float (PyDict kvs) = Inl TypeError"
| "py_float (PyArray xs) = Inl Unmodelled"
| "py_float (PyNode r) = Inl Unmodelled"

text \<open>\<^verbatim>\<open>a + b\<close>: two strings concatenate, otherwise the operands are added as numbers.\<close>

fun py_add :: "pydata \<Rightarrow> pydata \<Rightarrow> error + pydata" where
  "py_add (PyStr s) (PyStr t) = Inr (PyStr (s @ t))"
| "py_add a b =
     (case py_float a of
        Inl e \<Rightarrow> Inl e
      | Inr x \<Rightarrow> (case py_float b of Inl e \<Rightarrow> Inl e | Inr y \<Rightarrow> Inr (PyNum (x + y))))"

definition py_sub :: "pydata \<Rightarrow> pydata \<Rightarrow> error + pydata" where
  "py_sub a b =
     (case py_float a of
        Inl e \<Rightarrow> Inl e
      | Inr x \<Rightarrow> (case py_float b of Inl e \<Rightarrow> Inl e | Inr y \<Rightarrow> Inr (PyNum (x - y))))"

text \<open>The truth value \<^verbatim>\<open>if v:\<close> tests.\<close>

fun py_truth :: "pydata \<Rightarrow> error + bool" where
  "py_truth (PyNum x) = Inr (x \<noteq> 0)"
| "py_truth (PyBool b) = Inr b"
| "py_truth (PyStr s) = Inr (s \<noteq> [])"
| "py_truth (PyDict kvs) = Inr (kvs \<noteq> [])"
| "py_truth (PyArray xs) = Inl Unmodelled"
| "py_truth (PyNode r) = Inr True"

text \<open>
  The shape numpy reports for \<^verbatim>\<open>np.array\<close> of a regular (possibly nested) list; a
  value that is not an array has the empty shape \<^verbatim>\<open>()\<close>.
\<close>

fun dims_of :: "pydata \<Rightarrow> nat list" where
  "dims_of (PyArray []) = [0]"
| "dims_of (PyArray (x # xs)) = Suc (length xs) # dims_of x"
| "dims_of (PyNum x) = []"
| "dims_of (PyBool b) = []"
| "dims_of (PyStr s) = []"
| "dims_of (PyDict kvs) = []"
| "dims_of (PyNode r) = []"

definition np_array :: "real list \<Rightarrow> pydata" where
  "np_array xs = PyArray (map PyNum xs)"

text \<open>
  Modelled from the spec: the constructor \<^verbatim>\<open>ANLValue(type, shape, data)\<close> (the spec's
  \<^verbatim>\<open>TypedValue.construct\<close>) belongs to the absent \<^verbatim>\<open>runtime\<close> module. The spec, 4.1:
  it ``validates data against (kind, shape); fails with a ShapeMismatch error if a
  Vector's data dimensionality disagrees with shape, or a TypeMismatch error if data's
  runtime representation is incompatible with kind (e.g., a callable supplied where
  Scalar is declared)''. The sources store numbers, booleans and strings under SCALAR,
  anything under FUNCTION (``opaque callable/value'') and a node under NODE.
\<close>

fun representable :: "ANLType \<Rightarrow> pydata \<Rightarrow> bool" where
  "representable SCALAR (PyNum x) = True"
| "representable SCALAR (PyBool b) = True"
| "representable SCALAR (PyStr s) = True"
| "representable SCALAR d = False"
| "representable VECTOR d = True"
| "representable FUNCTION d = True"
| "representable NODE (PyNode r) = True"
| "representable NODE d = False"

text \<open>
  Modelled from the spec: the check the constructor and \<^verbatim>\<open>TypedValue.set\<close> share
  (4.1, 3: ``if kind == Vector, data's dimensionality must equal shape exactly'').
\<close>

definition validate :: "ANLType \<Rightarrow> nat list \<Rightarrow> pydata \<Rightarrow> error + unit" where
  "validate t s d =
     (if t = VECTOR \<and> dims_of d \<noteq> s then Inl ShapeMismatch
      else if \<not> representable t d then Inl TypeMismatch
      else Inr ())"

text \<open>
  Modelled from the spec: \<^verbatim>\<open>ANLValue(type, shape, data)\<close> validates and, when the data
  passes, stores the three arguments.
\<close>

definition ANLValue_init :: "ANLType \<Rightarrow> nat list \<Rightarrow> pydata \<Rightarrow> error + ANLValue" where
  "ANLValue_init t s d =
     (case validate t s d of
        Inl e \<Rightarrow> Inl e
      | Inr u \<Rightarrow> Inr \<lparr>val_type = t, shape = s, data = d\<rparr>)"

text \<open>
  \<^verbatim>\<open>Node(id=..., state_space=..., attributes={name: ANLValue(...), ...})\<close>: the entries of
  the dict literal are evaluated in order, and the first constructor that raises ends
  the construction. A later entry with the same key replaces an earlier one.
\<close>

fun eval_attributes ::
  "(string \<times> (error + ANLValue)) list \<Rightarrow> (string \<rightharpoonup> ANLValue) \<Rightarrow> error + (string \<rightharpoonup> ANLValue)" where
  "eval_attributes [] m = Inr m"
| "eval_attributes ((k, Inl e) # rest) m = Inl e"
| "eval_attributes ((k, Inr v) # rest) m = eval_attributes rest (m(k \<mapsto> v))"

definition Node_init ::
  "string \<Rightarrow> ANLType \<Rightarrow> (string \<times> (error + ANLValue)) list \<Rightarrow> error + Node" where
  "Node_init ident space entries =
     (case eval_attributes entries Map.empty of
        Inl e \<Rightarrow> Inl e
      | Inr m \<Rightarrow>
          Inr \<lparr>py_class = Class_Node, node_id = ident, state_space = space, attributes = m\<rparr>)"

text \<open>
  The sources read and write attribute data as \<^verbatim>\<open>node.attributes[name].data\<close>. The
  subscript raises KeyError for a name that is not a key, on a read and on a write
  alike (the ANLValue is looked up before its field is assigned), so a write never
  adds a key. The assignment replaces the \<^verbatim>\<open>data\<close> field only; it is a plain
  attribute assignment in the sources, and is modelled as one.
\<close>

definition read_data :: "Node \<Rightarrow> string \<Rightarrow> error + pydata" where
  "read_data n name =
     (case attributes n name of
        None \<Rightarrow> Inl (KeyError name)
      | Some a \<Rightarrow> Inr (data a))"

definition write_data :: "Node \<Rightarrow> string \<Rightarrow> pydata \<Rightarrow> Node \<times> (error + unit)" where
  "write_data n name v =
     (case attributes n name of
        None \<Rightarrow> (n, Inl (KeyError name))
      | Some a \<Rightarrow> (n\<lparr>attributes := (attributes n)(name \<mapsto> a\<lparr>data := v\<rparr>)\<rparr>, Inr ()))"

text \<open>
  \<^verbatim>\<open>node.attributes[name].data += v\<close> and \<^verbatim>\<open>-= v\<close>, as the predator-prey demo uses them.
\<close>

definition iadd_data :: "Node \<Rightarrow> string \<Rightarrow> pydata \<Rightarrow> Node \<times> (error + unit)" where
  "iadd_data n name v =
     (case read_data n name of
        Inl e \<Rightarrow> (n, Inl e)
      | Inr d \<Rightarrow>
          (case py_add d v of
             Inl e \<Rightarrow> (n, Inl e)
           | Inr d' \<Rightarrow> write_data n name d'))"

definition isub_data :: "Node \<Rightarrow> string \<Rightarrow> pydata \<Rightarrow> Node \<times> (error + unit)" where
  "isub_data n name v =
     (case read_data n name of
        Inl e \<Rightarrow> (n, Inl e)
      | Inr d \<Rightarrow>
          (case py_sub d v of
             Inl e \<Rightarrow> (n, Inl e)
           | Inr d' \<Rightarrow> write_data n name d'))"

text \<open>A statement that mutates the node a variable refers to, run on the heap.\<close>

definition on_node :: "heap \<Rightarrow> ref \<Rightarrow> (Node \<Rightarrow> Node \<times> (error + 'a)) \<Rightarrow> heap \<times> (error + 'a)" where
  "on_node h r stmt =
     (case h r of
        None \<Rightarrow> (h, Inl AttributeError)
      | Some n \<Rightarrow> (case stmt n of (n', res) \<Rightarrow> (h(r \<mapsto> n'), res)))"

text \<open>\<^verbatim>\<open>var.attributes[name].data\<close> read through a variable that refers to a node.\<close>

definition heap_data :: "heap \<Rightarrow> ref \<Rightarrow> string \<Rightarrow> error + pydata" where
  "heap_data h r name = (case h r of None \<Rightarrow> Inl AttributeError | Some n \<Rightarrow> read_data n name)"

section \<open>Python numbers\<close>

text \<open>
  A Python number is an int, of any size, or a float, an IEEE 754 binary64 value: a
  finite double, an infinity (\<open>Infinite True\<close> is \<^verbatim>\<open>inf\<close>) or NaN. The two zeros are
  one value here; no modelled operation tells them apart.
\<close>

datatype double = Finite real | Infinite bool | NotANumber

datatype pynumber = PyInteger int | PyFloating double

text \<open>
  Rounding to the nearest double, ties to even. \<open>quantum x\<close> is the spacing of the
  doubles around \<open>x\<close>: 2 to the power e - 52 when \<open>|x|\<close> lies between 2 to the e and
  2 to the e + 1, and 2 to the - 1074 below 2 to the - 1022 (the subnormal range). A
  rounded result of magnitude 2 to the 1024 or more is an infinity.
\<close>

definition round_even :: "real \<Rightarrow> int" where
  "round_even y =
     (let n = \<lfloor>y\<rfloor>; d = y - of_int n in
      if d < 1 / 2 then n
      else if 1 / 2 < d then n + 1
      else if even n then n else n + 1)"

definition binade :: "real \<Rightarrow> int" where
  "binade x = max \<lfloor>log 2 \<bar>x\<bar>\<rfloor> (- 1022)"

definition quantum :: "real \<Rightarrow> real" where
  "quantum x = 2 powi (binade x - 52)"

definition fl :: "real \<Rightarrow> double" where
  "fl x =
     (if x = 0 then Finite 0
      else
        (let r = of_int (round_even (x / quantum x)) * quantum x in
         if 2 ^ 1024 \<le> \<bar>r\<bar> then Infinite (0 < x) else Finite r))"

text \<open>The arithmetic of floats: the exact result rounded, with the IEEE special cases.\<close>

fun dneg :: "double \<Rightarrow> double" where
  "dneg (Finite x) = Finite (- x)"
| "dneg (Infinite s) = Infinite (\<not> s)"
| "dneg NotANumber = NotANumber"

fun dabs :: "double \<Rightarrow> double" where
  "dabs (Finite x) = Finite \<bar>x\<bar>"
| "dabs (Infinite s) = Infinite True"
| "dabs NotANumber = NotANumber"

fun dadd :: "double \<Rightarrow> double \<Rightarrow> double" where
  "dadd (Finite x) (Finite y) = fl (x + y)"
| "dadd (Finite x) (Infinite t) = Infinite t"
| "dadd (Infinite s) (Finite y) = Infinite s"
| "dadd (Infinite s) (Infinite t) = (if s = t then Infinite s else NotANumber)"
| "dadd NotANumber b = NotANumber"
| "dadd a NotANumber = NotANumber"

definition dsub :: "double \<Rightarrow> double \<Rightarrow> double" where
  "dsub a b = dadd a (dneg b)"

fun dmul :: "double \<Rightarrow> double \<Rightarrow> double" where
  "dmul (Finite x) (Finite y) = fl (x * y)"
| "dmul (Finite x) (Infinite t) = (if x = 0 then NotANumber else Infinite (t = (0 < x)))"
| "dmul (Infinite s) (Finite y) = (if y = 0 then NotANumber else Infinite (s = (0 < y)))"
| "dmul (Infinite s) (Infinite t) = Infinite (s = t)"
| "dmul NotANumber b = NotANumber"
| "dmul a NotANumber = NotANumber"

text \<open>\<^verbatim>\<open>a < b\<close> and \<^verbatim>\<open>a <= b\<close> on doubles: every comparison with NaN is false.\<close>

fun dless :: "double \<Rightarrow> double \<Rightarrow> bool" where
  "dless (Finite x) (Finite y) = (x < y)"
| "dless (Finite x) (Infinite t) = t"
| "dless (Infinite s) (Finite y) = (\<not> s)"
| "dless (Infinite s) (Infinite t) = (\<not> s \<and> t)"
| "dless NotANumber b = False"
| "dless a NotANumber = False"

fun dle :: "double \<Rightarrow> double \<Rightarrow> bool" where
  "dle (Finite x) (Finite y) = (x \<le> y)"
| "dle (Finite x) (Infinite t) = t"
| "dle (Infinite s) (Finite y) = (\<not> s)"
| "dle (Infinite s) (Infinite t) = (\<not> s \<or> t)"
| "dle NotANumber b = False"
| "dle a NotANumber = False"

text \<open>
  An int that meets a float in arithmetic is converted first, as \<^verbatim>\<open>float(i)\<close> does: it
  is rounded to the nearest double, and one too large for a double raises
  OverflowError.
\<close>

fun to_double :: "pynumber \<Rightarrow> error + double" where
  "to_double (PyInteger i) =
     (case fl (of_int i) of
        Infinite s \<Rightarrow> Inl OverflowError
      | Finite x \<Rightarrow> Inr (Finite x)
      | NotANumber \<Rightarrow> Inr NotANumber)"
| "to_double (PyFloating d) = Inr d"

text \<open>
  \<^verbatim>\<open>a + b\<close>, \<^verbatim>\<open>a - b\<close>, \<^verbatim>\<open>a * b\<close>: two ints are combined exactly and give an int;
  otherwise both operands become floats and the float operation applies.
\<close>

fun num_binop ::
  "(int \<Rightarrow> int \<Rightarrow> int) \<Rightarrow> (double \<Rightarrow> double \<Rightarrow> double) \<Rightarrow> pynumber \<Rightarrow> pynumber \<Rightarrow> error + pynumber" where
  "num_binop iop dop (PyInteger a) (PyInteger b) = Inr (PyInteger (iop a b))"
| "num_binop iop dop a b =
     (case to_double a of
        Inl e \<Rightarrow> Inl e
      | Inr x \<Rightarrow>
          (case to_double b of
             Inl e \<Rightarrow> Inl e
           | Inr y \<Rightarrow> Inr (PyFloating (dop x y))))"

definition num_add :: "pynumber \<Rightarrow> pynumber \<Rightarrow> error + pynumber" where
  "num_add = num_binop (+) dadd"

definition num_sub :: "pynumber \<Rightarrow> pynumber \<Rightarrow> error + pynumber" where
  "num_sub = num_binop (-) dsub"

definition num_mul :: "pynumber \<Rightarrow> pynumber \<Rightarrow> error + pynumber" where
  "num_mul = num_binop (*) dmul"

fun num_abs :: "pynumber \<Rightarrow> pynumber" where
  "num_abs (PyInteger i) = PyInteger \<bar>i\<bar>"
| "num_abs (PyFloating d) = PyFloating (dabs d)"

text \<open>
  Python compares an int with a float by value, without converting the int: the
  comparison is exact.
\<close>

fun exact_value :: "pynumber \<Rightarrow> double" where
  "exact_value (PyInteger i) = Finite (of_int i)"
| "exact_value (PyFloating d) = d"

definition num_less :: "pynumber \<Rightarrow> pynumber \<Rightarrow> bool" where
  "num_less a b = dless (exact_value a) (exact_value b)"

definition num_le :: "pynumber \<Rightarrow> pynumber \<Rightarrow> bool" where
  "num_le a b = dle (exact_value a) (exact_value b)"

text \<open>
  A decimal float literal of the sources denotes the double nearest to it.
\<close>

definition float_literal :: "real \<Rightarrow> pynumber" where
  "float_literal r = PyFloating (fl r)"

text \<open>
  The number an attribute holds, and the value stored for a number. A boolean is the
  int 0 or 1. An int result (it can only come from a boolean attribute) is stored as
  the number it is; an infinity or a NaN cannot be stored.
\<close>

fun number_of :: "pydata \<Rightarrow> error + pynumber" where
  "number_of (PyNum x) = Inr (PyFloating (Finite x))"
| "number_of (PyBool b) = Inr (PyInteger (if b then 1 else 0))"
| "number_of (PyStr s) = Inl TypeError"
| "number_of (PyDict kvs) = Inl TypeError"
| "number_of (PyArray xs) = Inl Unmodelled"
| "number_of (PyNode r) = Inl Unmodelled"

fun data_of :: "pynumber \<Rightarrow> error + pydata" where
  "data_of (PyInteger i) = Inr (PyNum (of_int i))"
| "data_of (PyFloating (Finite x)) = Inr (PyNum x)"
| "data_of (PyFloating (Infinite s)) = Inl Unmodelled"
| "data_of (PyFloating NotANumber) = Inl Unmodelled"

text \<open>\<^verbatim>\<open>float(x)\<close> of a number, as the value to store.\<close>

definition float_call :: "pynumber \<Rightarrow> error + pydata" where
  "float_call x =
     (case to_double x of
        Inl e \<Rightarrow> Inl e
      | Inr d \<Rightarrow> data_of (PyFloating d))"

text \<open>
  \<^verbatim>\<open>node.attributes[name].data += v\<close> and \<^verbatim>\<open>*= v\<close> for a numeric literal \<open>v\<close>: the
  attribute is looked up, its data combined with \<open>v\<close>, and the result assigned.
\<close>

definition inplace_data ::
  "(pynumber \<Rightarrow> pynumber \<Rightarrow> error + pynumber) \<Rightarrow> Node \<Rightarrow> string \<Rightarrow> pynumber \<Rightarrow> Node \<times> (error + unit)" where
  "inplace_data binop n name v =
     (case read_data n name of
        Inl e \<Rightarrow> (n, Inl e)
      | Inr d \<Rightarrow>
          (case number_of d of
             Inl e \<Rightarrow> (n, Inl e)
           | Inr a \<Rightarrow>
               (case binop a v of
                  Inl e \<Rightarrow> (n, Inl e)
                | Inr r \<Rightarrow>
                    (case data_of r of
                       Inl e \<Rightarrow> (n, Inl e)
                     | Inr d' \<Rightarrow> write_data n name d'))))"

text \<open>An ANLValue constructor call whose data argument may itself raise.\<close>

definition scalar_of :: "error + pydata \<Rightarrow> error + ANLValue" where
  "scalar_of r = (case r of Inl e \<Rightarrow> Inl e | Inr d \<Rightarrow> ANLValue_init SCALAR [] d)"

section \<open>Entity accessors\<close>

text \<open>
  Modelled from the spec: \<^verbatim>\<open>TypedValue.set\<close> is not in the sources, which assign
  \<^verbatim>\<open>.data\<close> directly. The spec, 4.1: ``set re-validates against the stored (kind, shape)
  on every call; a failed validation leaves the previous data untouched (atomic
  replace-or-reject)''.
\<close>

definition TypedValue_set :: "ANLValue \<Rightarrow> pydata \<Rightarrow> error + ANLValue" where
  "TypedValue_set tv new_data =
     (case validate (val_type tv) (shape tv) new_data of
        Inl e \<Rightarrow> Inl e
      | Inr u \<Rightarrow> Inr (tv\<lparr>data := new_data\<rparr>))"

text \<open>
  Modelled from the spec: \<^verbatim>\<open>Entity.get_attribute\<close> is not in the sources, which
  subscript \<^verbatim>\<open>node.attributes\<close> directly. The spec, 4.2: it ``returns the TypedValue;
  fails with UnknownAttribute if name is absent''.
\<close>

definition get_attribute :: "Node \<Rightarrow> string \<Rightarrow> error + ANLValue" where
  "get_attribute n name =
     (case attributes n name of
        None \<Rightarrow> Inl UnknownAttribute
      | Some tv \<Rightarrow> Inr tv)"

text \<open>
  Modelled from the spec: \<^verbatim>\<open>Entity.set_attribute\<close> is not in the sources. The spec,
  4.2: it ``delegates to the attribute's TypedValue.set; fails with UnknownAttribute if
  name was never declared (attributes are not silently created by mutation)''.
\<close>

definition set_attribute :: "Node \<Rightarrow> string \<Rightarrow> pydata \<Rightarrow> Node \<times> (error + unit)" where
  "set_attribute n name new_data =
     (case attributes n name of
        None \<Rightarrow> (n, Inl UnknownAttribute)
      | Some tv \<Rightarrow>
          (case TypedValue_set tv new_data of
             Inl e \<Rightarrow> (n, Inl e)
           | Inr tv' \<Rightarrow> (n\<lparr>attributes := (attributes n)(name \<mapsto> tv')\<rparr>, Inr ())))"

section \<open>Handovers\<close>

text \<open>
  A handover refers to its source and target nodes and holds the caller's mapping
  function. The mapping functions of the sources (\<^verbatim>\<open>eat_grass_fn\<close>, \<^verbatim>\<open>map_fn\<close>) take
  the source node and may read any object their closure captured; neither writes. So a
  mapping function reads the heap and returns a value or raises.
\<close>

record Handover =
  handover_id :: string
  source :: ref
  target :: ref
  protocol :: PreservationProtocol
  map_state :: "heap \<Rightarrow> ref \<Rightarrow> error + pydata"
  fidelity :: "real option"

text \<open>
  Modelled from the spec: the constructor \<^verbatim>\<open>Handover(id, source, target, protocol,
  map_state, fidelity=None)\<close> belongs to the absent \<^verbatim>\<open>runtime\<close> module. The spec, 4.3:
  ``if policy == Transmutative, fidelity must be supplied and in [0,1]; fails with
  MissingFidelity or FidelityOutOfRange otherwise. If policy == Conservative, fidelity
  must be absent/ignored.''
\<close>

definition Handover_init ::
  "string \<Rightarrow> ref \<Rightarrow> ref \<Rightarrow> PreservationProtocol \<Rightarrow> (heap \<Rightarrow> ref \<Rightarrow> error + pydata) \<Rightarrow> real option
     \<Rightarrow> error + Handover" where
  "Handover_init ident src tgt proto f fid =
     (case proto of
        CONSERVATIVE \<Rightarrow>
          Inr \<lparr>handover_id = ident, source = src, target = tgt, protocol = proto,
               map_state = f, fidelity = None\<rparr>
      | TRANSMUTATIVE \<Rightarrow>
          (case fid of
             None \<Rightarrow> Inl MissingFidelity
           | Some x \<Rightarrow>
               if 0 \<le> x \<and> x \<le> 1
               then Inr \<lparr>handover_id = ident, source = src, target = tgt, protocol = proto,
                         map_state = f, fidelity = Some x\<rparr>
               else Inl FidelityOutOfRange))"

text \<open>
  Modelled from the spec: the method \<^verbatim>\<open>Handover.execute()\<close> belongs to the absent
  \<^verbatim>\<open>runtime\<close> module. The spec, 4.3: it ``invokes map\_state(source) to obtain a
  transferred value v''; ``execution never mutates source or target directly; it is a
  pure computation [...] returning the computed value (and, for transmutative
  handovers, the fidelity)''; ``map\_state raising/signalling an error propagates as
  HandoverExecutionFailed, carrying the handover id and the underlying cause''. The
  result is the heap after the call and either the failure or the value with the
  fidelity (\<open>None\<close> for a conservative handover, which returns the bare value).
\<close>

definition execute :: "Handover \<Rightarrow> heap \<Rightarrow> heap \<times> (error + pydata \<times> real option)" where
  "execute ho h =
     (h,
      case map_state ho h (source ho) of
        Inl e \<Rightarrow> Inl (HandoverExecutionFailed (handover_id ho) e)
      | Inr v \<Rightarrow>
          Inr (v, case protocol ho of CONSERVATIVE \<Rightarrow> None | TRANSMUTATIVE \<Rightarrow> fidelity ho))"

section \<open>asimov\_universe.py\<close>

text \<open>
  Each model class (\<^verbatim>\<open>RobotModel\<close>, \<^verbatim>\<open>PlanetModel\<close>, \<^verbatim>\<open>FoundationModel\<close>,
  \<^verbatim>\<open>PsychohistoryModel\<close>) has the single field \<^verbatim>\<open>self.node\<close>; the model identifies an
  instance with that node. A function that mutates a node returns the node as it is
  when the function returns or raises, paired with the outcome.
\<close>

subsection \<open>RobotModel\<close>


text \<open>
  \<^verbatim>\<open>
  def evolve(self, dt, experience):
      pot = self.node.attributes['brain_potential'].data
      pot += 0.001 * dt
      self.node.attributes['brain_potential'].data = min(1.0, pot)

      if pot > 0.9 and experience > 1000:
          self.node.attributes['zeroth_law_aware'].data = True
  \<close>
\<close>

definition evolve :: "Node \<Rightarrow> real \<Rightarrow> real \<Rightarrow> Node \<times> (error + unit)" where
  "evolve self dt experience =
     (case read_data self ''brain_potential'' of
        Inl e \<Rightarrow> (self, Inl e)
      | Inr d \<Rightarrow>
          (case py_float d of
             Inl e \<Rightarrow> (self, Inl e)
           | Inr p \<Rightarrow>
               (let pot = p + 0.001 * dt in
                (case write_data self ''brain_potential'' (PyNum (min 1 pot)) of
                   (self1, Inl e) \<Rightarrow> (self1, Inl e)
                 | (self1, Inr u) \<Rightarrow>
                     if pot > 0.9 \<and> experience > 1000
                     then write_data self1 ''zeroth_law_aware'' (PyBool True)
                     else (self1, Inr ())))))"

subsection \<open>PlanetModel\<close>

text \<open>
  \<^verbatim>\<open>
  def __init__(self, name, coords, population, tech_level=0.5):
      self.node = Node(
          id=f"Planet_{name}",
          state_space=ANLType.VECTOR,
          attributes={
              'name': ANLValue(ANLType.SCALAR, (), name),
              'coords': ANLValue(ANLType.VECTOR, (3,), np.array(coords)),
              'population': ANLValue(ANLType.SCALAR, (), float(population)),
              'technological_level': ANLValue(ANLType.SCALAR, (), tech_level),
              'robot_density': ANLValue(ANLType.SCALAR, (), 0.0)
          })
  \<close>
  \<^verbatim>\<open>coords\<close> is a flat list of numbers, as in asimov\_demo.py; \<^verbatim>\<open>population\<close> is an int
  or a float, \<^verbatim>\<open>tech_level\<close> a float.
\<close>

definition PlanetModel_init :: "string \<Rightarrow> real list \<Rightarrow> pynumber \<Rightarrow> real \<Rightarrow> error + Node" where
  "PlanetModel_init name coords population tech_level =
     Node_init (''Planet_'' @ name) VECTOR
       [(''name'', ANLValue_init SCALAR [] (PyStr name)),
        (''coords'', ANLValue_init VECTOR [3] (np_array coords)),
        (''population'', scalar_of (float_call population)),
        (''technological_level'', ANLValue_init SCALAR [] (PyNum tech_level)),
        (''robot_density'', ANLValue_init SCALAR [] (PyNum 0))]"

subsection \<open>FoundationModel\<close>

text \<open>
  \<^verbatim>\<open>
  def __init__(self, founding_year=23651):
      self.node = Node(
          id="Foundation",
          state_space=ANLType.SCALAR,
          attributes={
              'founding_year': ANLValue(ANLType.SCALAR, (), float(founding_year)),
              'phase': ANLValue(ANLType.SCALAR, (), "Encyclopedia"),
              'scientific_superiority': ANLValue(ANLType.SCALAR, (), 0.8),
              'subject_worlds': ANLValue(ANLType.SCALAR, (), 1.0),
              'current_crisis': ANLValue(ANLType.SCALAR, (), 0.0)
          })
  \<close>
\<close>

definition FoundationModel_init :: "pynumber \<Rightarrow> error + Node" where
  "FoundationModel_init founding_year =
     Node_init ''Foundation'' SCALAR
       [(''founding_year'', scalar_of (float_call founding_year)),
        (''phase'', ANLValue_init SCALAR [] (PyStr ''Encyclopedia'')),
        (''scientific_superiority'', scalar_of (data_of (float_literal 0.8))),
        (''subject_worlds'', scalar_of (data_of (float_literal 1))),
        (''current_crisis'', scalar_of (data_of (float_literal 0)))]"

text \<open>
  \<^verbatim>\<open>
  def update_phase(self, current_time):
      age = current_time - self.node.attributes['founding_year'].data
      if age < 50:
          self.node.attributes['phase'].data = "Encyclopedia"
      elif age < 150:
          self.node.attributes['phase'].data = "Scientism"
      elif age < 300:
          self.node.attributes['phase'].data = "Trade"
      else:
          self.node.attributes['phase'].data = "Federation"
  \<close>
\<close>

definition update_phase :: "Node \<Rightarrow> pynumber \<Rightarrow> Node \<times> (error + unit)" where
  "update_phase self current_time =
     (case read_data self ''founding_year'' of
        Inl e \<Rightarrow> (self, Inl e)
      | Inr d \<Rightarrow>
          (case number_of d of
             Inl e \<Rightarrow> (self, Inl e)
           | Inr y \<Rightarrow>
               (case num_sub current_time y of
                  Inl e \<Rightarrow> (self, Inl e)
                | Inr age \<Rightarrow>
                    if num_less age (PyInteger 50)
                    then write_data self ''phase'' (PyStr ''Encyclopedia'')
                    else if num_less age (PyInteger 150)
                    then write_data self ''phase'' (PyStr ''Scientism'')
                    else if num_less age (PyInteger 300)
                    then write_data self ''phase'' (PyStr ''Trade'')
                    else write_data self ''phase'' (PyStr ''Federation''))))"

subsection \<open>PsychohistoryModel\<close>

text \<open>
  \<^verbatim>\<open>
  def __init__(self, accuracy=0.95):
      self.node = Node(
          id="Psychohistory",
          state_space=ANLType.SCALAR,
          attributes={
              'accuracy': ANLValue(ANLType.SCALAR, (), accuracy),
              'crisis_predicted': ANLValue(ANLType.SCALAR, (), False)
          })
  \<close>
\<close>

definition PsychohistoryModel_init :: "real \<Rightarrow> error + Node" where
  "PsychohistoryModel_init accuracy =
     Node_init ''Psychohistory'' SCALAR
       [(''accuracy'', ANLValue_init SCALAR [] (PyNum accuracy)),
        (''crisis_predicted'', ANLValue_init SCALAR [] (PyBool False))]"

subsection \<open>seldon\_crisis\<close>

text \<open>
  \<^verbatim>\<open>
  def seldon_crisis(foundation_node, psychohistory_node, current_time, crisis_time):
      if abs(current_time - crisis_time) < 1.0:
          foundation_node.attributes['current_crisis'].data += 1
          foundation_node.attributes['scientific_superiority'].data *= 1.1
          foundation_node.attributes['subject_worlds'].data += 2
          return True
      return False
  \<close>
  \<^verbatim>\<open>psychohistory_node\<close> is never read. The two times are ints (as in asimov\_demo.py) or
  floats. The three updates happen in order; one that raises leaves the earlier ones
  in place.
\<close>

definition seldon_crisis ::
  "Node \<Rightarrow> Node option \<Rightarrow> pynumber \<Rightarrow> pynumber \<Rightarrow> Node \<times> (error + bool)" where
  "seldon_crisis foundation_node psychohistory_node current_time crisis_time =
     (case num_sub current_time crisis_time of
        Inl e \<Rightarrow> (foundation_node, Inl e)
      | Inr d \<Rightarrow>
          if num_less (num_abs d) (float_literal 1) then
            (case inplace_data num_add foundation_node ''current_crisis'' (PyInteger 1) of
               (f1, Inl e) \<Rightarrow> (f1, Inl e)
             | (f1, Inr u) \<Rightarrow>
                 (case inplace_data num_mul f1 ''scientific_superiority'' (float_literal 1.1) of
                    (f2, Inl e) \<Rightarrow> (f2, Inl e)
                  | (f2, Inr u) \<Rightarrow>
                      (case inplace_data num_add f2 ''subject_worlds'' (PyInteger 2) of
                         (f3, Inl e) \<Rightarrow> (f3, Inl e)
                       | (f3, Inr u) \<Rightarrow> (f3, Inr True))))
          else (foundation_node, Inr False))"

subsection \<open>mentalic\_manipulation\<close>

text \<open>
  \<^verbatim>\<open>
  def mentalic_manipulation(source_node, target_node, power):
      success = False
      source_power = source_node.attributes['mentalic_power'].data
      if source_power >= power:
          # Simplified effect
          if 'stability_index' in target_node.attributes:
              target_node.attributes['stability_index'].data *= 0.5
          success = True
      return success
  \<close>
  Only the target is written; the function returns the target as it leaves it. The
  parameter \<^verbatim>\<open>power\<close> is called \<open>required_power\<close> here.
\<close>

definition mentalic_manipulation :: "Node \<Rightarrow> Node \<Rightarrow> pynumber \<Rightarrow> Node \<times> (error + bool)" where
  "mentalic_manipulation source_node target_node required_power =
     (case read_data source_node ''mentalic_power'' of
        Inl e \<Rightarrow> (target_node, Inl e)
      | Inr d \<Rightarrow>
          (case number_of d of
             Inl e \<Rightarrow> (target_node, Inl e)
           | Inr source_power \<Rightarrow>
               if num_le required_power source_power then
                 (if attributes target_node ''stability_index'' \<noteq> None then
                    (case inplace_data num_mul target_node ''stability_index'' (float_literal 0.5) of
                       (t1, Inl e) \<Rightarrow> (t1, Inl e)
                     | (t1, Inr u) \<Rightarrow> (t1, Inr True))
                  else (target_node, Inr True))
               else (target_node, Inr False)))"

subsection \<open>inheritance\_daneel\<close>

text \<open>
  \<^verbatim>\<open>
  def inheritance_daneel(daneel_node, target_node, current_time):
      influence = 0.0
      if current_time < 3624:
          influence = 0.9 # Robot era
      elif current_time < 12000:
          influence = 0.5 # Imperial era
      else:
          influence = 0.3 # Foundation era
      return influence
  \<close>
  Neither node is read; asimov\_demo.py passes \<^verbatim>\<open>None\<close> for \<^verbatim>\<open>target_node\<close>, so a node
  argument is a \<^typ>\<open>Node option\<close>.
\<close>

definition inheritance_daneel :: "Node option \<Rightarrow> Node option \<Rightarrow> real \<Rightarrow> real" where
  "inheritance_daneel daneel_node target_node current_time =
     (if current_time < 3624 then 0.9
      else if current_time < 12000 then 0.5
      else 0.3)"

section \<open>ontological\_engine.py\<close>

subsection \<open>Ontology\<close>

text \<open>
  \<^verbatim>\<open>
  class Ontology(Node):
      def __init__(self, name, categories, relations):
          super().__init__(
              id=f"Ontology_{name}",
              state_space=ANLType.SCALAR,
              attributes={
                  'name': ANLValue(ANLType.SCALAR, (), name),
                  'categories': ANLValue(ANLType.VECTOR, (len(categories),), np.array(categories)),
                  'relations': ANLValue(ANLType.FUNCTION, (), relations),
                  'coherence_score': ANLValue(ANLType.SCALAR, (), 0.9),
                  'explanatory_power': ANLValue(ANLType.SCALAR, (), 0.8)
              })
  \<close>
  \<^verbatim>\<open>categories\<close> is a flat list of strings, as in ontological\_demo.py.
\<close>

definition Ontology_init :: "string \<Rightarrow> string list \<Rightarrow> pydata \<Rightarrow> error + Node" where
  "Ontology_init name categories relations =
     (case Node_init (''Ontology_'' @ name) SCALAR
             [(''name'', ANLValue_init SCALAR [] (PyStr name)),
              (''categories'',
                 ANLValue_init VECTOR [length categories] (PyArray (map PyStr categories))),
              (''relations'', ANLValue_init FUNCTION [] relations),
              (''coherence_score'', scalar_of (data_of (float_literal 0.9))),
              (''explanatory_power'', scalar_of (data_of (float_literal 0.8)))] of
        Inl e \<Rightarrow> Inl e
      | Inr n \<Rightarrow> Inr (n\<lparr>py_class := Class_Ontology\<rparr>))"

text \<open>
  \<^verbatim>\<open>
  def translate(self, statement, source_ontology):
      return f"Statement '{statement}' translated from {source_ontology.id} to {self.id}"
  \<close>
\<close>

definition translate :: "Node \<Rightarrow> string \<Rightarrow> Node \<Rightarrow> string" where
  "translate self statement source_ontology =
     ''Statement '' @ [CHR 0x27] @ statement @ [CHR 0x27] @ '' translated from ''
       @ node_id source_ontology @ '' to '' @ node_id self"

subsection \<open>OntologicalCommunication\<close>

text \<open>
  \<^verbatim>\<open>
  class OntologicalCommunication(Handover):
      def __init__(self, source, target, statement):
          def map_fn(src):
              # Simulation of fidelity and commensurability
              return target.translate(statement, source)

          super().__init__(
              id=f"Comm_{source.id}_{target.id}",
              source=source,
              target=target,
              protocol=PreservationProtocol.TRANSMUTATIVE,
              map_state=map_fn,
              fidelity=0.95
          )
  \<close>
  \<^verbatim>\<open>map_fn\<close> does not use its argument \<^verbatim>\<open>src\<close>: it reads the objects \<^verbatim>\<open>target\<close> and \<^verbatim>\<open>source\<close>
  of the enclosing call, as they are when it runs.
\<close>

definition map_fn :: "ref \<Rightarrow> ref \<Rightarrow> string \<Rightarrow> heap \<Rightarrow> ref \<Rightarrow> error + pydata" where
  "map_fn source_ref target_ref statement h src =
     (case h target_ref of
        None \<Rightarrow> Inl AttributeError
      | Some t \<Rightarrow>
          if py_class t \<noteq> Class_Ontology then Inl AttributeError
          else
            (case h source_ref of
               None \<Rightarrow> Inl AttributeError
             | Some s \<Rightarrow> Inr (PyStr (translate t statement s))))"

definition OntologicalCommunication_init :: "heap \<Rightarrow> ref \<Rightarrow> ref \<Rightarrow> string \<Rightarrow> error + Handover" where
  "OntologicalCommunication_init h source_ref target_ref statement =
     (case h source_ref of
        None \<Rightarrow> Inl AttributeError
      | Some s \<Rightarrow>
          (case h target_ref of
             None \<Rightarrow> Inl AttributeError
           | Some t \<Rightarrow>
               Handover_init (''Comm_'' @ node_id s @ ''_'' @ node_id t) source_ref target_ref
                 TRANSMUTATIVE (map_fn source_ref target_ref statement) (Some 0.95)))"

section \<open>distillation\_demo.py\<close>

text \<open>
  \<^verbatim>\<open>
  rabbit = Node(id="Rabbit_01", state_space=ANLType.SCALAR,
      attributes={'energy': ANLValue(ANLType.SCALAR, (), 100.0),
                  'age': ANLValue(ANLType.SCALAR, (), 0.0)})
  fox = Node(id="Fox_01", state_space=ANLType.SCALAR,
      attributes={'energy': ANLValue(ANLType.SCALAR, (), 150.0),
                  'age': ANLValue(ANLType.SCALAR, (), 0.0)})
  grass = Node(id="Grass_Patch", state_space=ANLType.SCALAR,
      attributes={'biomass': ANLValue(ANLType.SCALAR, (), 500.0)})
  \<close>
  The three objects get the addresses 0, 1 and 2.
\<close>

definition rabbit :: ref where "rabbit = 0"
definition fox :: ref where "fox = 1"
definition grass :: ref where "grass = 2"

definition demo_entities :: "error + heap" where
  "demo_entities =
     (case Node_init ''Rabbit_01'' SCALAR
             [(''energy'', ANLValue_init SCALAR [] (PyNum 100)),
              (''age'', ANLValue_init SCALAR [] (PyNum 0))] of
        Inl e \<Rightarrow> Inl e
      | Inr rabbit_node \<Rightarrow>
          (case Node_init ''Fox_01'' SCALAR
                  [(''energy'', ANLValue_init SCALAR [] (PyNum 150)),
                   (''age'', ANLValue_init SCALAR [] (PyNum 0))] of
             Inl e \<Rightarrow> Inl e
           | Inr fox_node \<Rightarrow>
               (case Node_init ''Grass_Patch'' SCALAR
                       [(''biomass'', ANLValue_init SCALAR [] (PyNum 500))] of
                  Inl e \<Rightarrow> Inl e
                | Inr grass_node \<Rightarrow>
                    Inr [rabbit \<mapsto> rabbit_node, fox \<mapsto> fox_node, grass \<mapsto> grass_node])))"

text \<open>
  \<^verbatim>\<open>
  def eat_grass_fn(src):
      # Effect on fox/rabbit/grass
      return 10.0 # Energy gain

  eat_grass = Handover(
      id="EatGrass",
      source=rabbit,
      target=grass,
      protocol=PreservationProtocol.CONSERVATIVE,
      map_state=eat_grass_fn
  )
  \<close>
\<close>

definition eat_grass_fn :: "heap \<Rightarrow> ref \<Rightarrow> error + pydata" where
  "eat_grass_fn h src = Inr (PyNum 10)"

definition eat_grass :: "error + Handover" where
  "eat_grass = Handover_init ''EatGrass'' rabbit grass CONSERVATIVE eat_grass_fn None"

text \<open>
  \<^verbatim>\<open>
  energy_gain = eat_grass.execute()
  if energy_gain:
      rabbit.attributes['energy'].data += energy_gain
      grass.attributes['biomass'].data -= energy_gain
  \<close>
  The handover is conservative, so \<^verbatim>\<open>execute()\<close> returns the bare value. How the runtime
  would pack a fidelity with the value is not known; that branch is not reached here.
\<close>

definition apply_gain :: "heap \<Rightarrow> pydata \<Rightarrow> heap \<times> (error + unit)" where
  "apply_gain h energy_gain =
     (case py_truth energy_gain of
        Inl e \<Rightarrow> (h, Inl e)
      | Inr b \<Rightarrow>
          if b then
            (case on_node h rabbit (\<lambda>n. iadd_data n ''energy'' energy_gain) of
               (h1, Inl e) \<Rightarrow> (h1, Inl e)
             | (h1, Inr u) \<Rightarrow> on_node h1 grass (\<lambda>n. isub_data n ''biomass'' energy_gain))
          else (h, Inr ()))"

definition simulate_step :: "Handover \<Rightarrow> heap \<Rightarrow> heap \<times> (error + unit)" where
  "simulate_step ho h =
     (case execute ho h of
        (h1, Inl e) \<Rightarrow> (h1, Inl e)
      | (h1, Inr (energy_gain, None)) \<Rightarrow> apply_gain h1 energy_gain
      | (h1, Inr (energy_gain, Some f)) \<Rightarrow> (h1, Inl Unmodelled))"

text \<open>
  \<^verbatim>\<open>run_distillation_demo()\<close>: the entities, the handover, the step. The result is the
  heap the function leaves and whether it raised; the prints show the energy and the
  biomass before and after the step.
\<close>

definition run_distillation_demo :: "heap \<times> (error + unit)" where
  "run_distillation_demo =
     (case demo_entities of
        Inl e \<Rightarrow> (Map.empty, Inl e)
      | Inr h0 \<Rightarrow>
          (case eat_grass of
             Inl e \<Rightarrow> (h0, Inl e)
           | Inr ho \<Rightarrow> simulate_step ho h0))"

section \<open>The nodes the constructors return\<close>

text \<open>
  The record each constructor builds when none of its ANLValue constructors raises.
  A SCALAR holding a number, a boolean or a string always passes; the lemmas of the
  next section say when the VECTOR attributes do.
\<close>

definition scalar :: "pydata \<Rightarrow> ANLValue" where
  "scalar d = \<lparr>val_type = SCALAR, shape = [], data = d\<rparr>"

definition robot_node :: "string \<Rightarrow> string \<Rightarrow> real \<Rightarrow> Node" where
  "robot_node model series brain_potential =
     \<lparr>py_class = Class_Node, node_id = ''Robot_'' @ series, state_space = SCALAR,
      attributes =
        [''model'' \<mapsto> scalar (PyStr model),
         ''series'' \<mapsto> scalar (PyStr series),
         ''brain_potential'' \<mapsto> scalar (PyNum brain_potential),
         ''zeroth_law_aware'' \<mapsto> scalar (PyBool False),
         ''mentalic_power'' \<mapsto> scalar (PyNum 0)]\<rparr>"

text \<open>
  The doubles the literals \<^verbatim>\<open>0.8\<close>, \<^verbatim>\<open>0.9\<close>, \<^verbatim>\<open>0.95\<close> and \<^verbatim>\<open>1.1\<close> denote, and the
  double Python prints as \<^verbatim>\<open>0.8800000000000001\<close>.
\<close>

definition double_0_8 :: real where "double_0_8 = 3602879701896397 / 2 ^ 52"
definition double_0_9 :: real where "double_0_9 = 8106479329266893 / 2 ^ 53"
definition double_0_95 :: real where "double_0_95 = 4278419646001971 / 2 ^ 52"
definition double_1_1 :: real where "double_1_1 = 2476979795053773 / 2 ^ 51"
definition double_0_8800000000000001 :: real where
  "double_0_8800000000000001 = 3963167672086037 / 2 ^ 52"

definition foundation_node :: "real \<Rightarrow> Node" where
  "foundation_node founding_year =
     \<lparr>py_class = Class_Node, node_id = ''Foundation'', state_space = SCALAR,
      attributes =
        [''founding_year'' \<mapsto> scalar (PyNum founding_year),
         ''phase'' \<mapsto> scalar (PyStr ''Encyclopedia''),
         ''scientific_superiority'' \<mapsto> scalar (PyNum double_0_8),
         ''subject_worlds'' \<mapsto> scalar (PyNum 1),
         ''current_crisis'' \<mapsto> scalar (PyNum 0)]\<rparr>"

definition psychohistory_node :: "real \<Rightarrow> Node" where
  "psychohistory_node accuracy =
     \<lparr>py_class = Class_Node, node_id = ''Psychohistory'', state_space = SCALAR,
      attributes =
        [''accuracy'' \<mapsto> scalar (PyNum accuracy),
         ''crisis_predicted'' \<mapsto> scalar (PyBool False)]\<rparr>"

definition planet_node :: "string \<Rightarrow> real list \<Rightarrow> real \<Rightarrow> real \<Rightarrow> Node" where
  "planet_node name coords population tech_level =
     \<lparr>py_class = Class_Node, node_id = ''Planet_'' @ name, state_space = VECTOR,
      attributes =
        [''name'' \<mapsto> scalar (PyStr name),
         ''coords'' \<mapsto> \<lparr>val_type = VECTOR, shape = [3], data = np_array coords\<rparr>,
         ''population'' \<mapsto> scalar (PyNum population),
         ''technological_level'' \<mapsto> scalar (PyNum tech_level),
         ''robot_density'' \<mapsto> scalar (PyNum 0)]\<rparr>"

definition ontology_node :: "string \<Rightarrow> string list \<Rightarrow> pydata \<Rightarrow> Node" where
  "ontology_node name categories relations =
     \<lparr>py_class = Class_Ontology, node_id = ''Ontology_'' @ name, state_space = SCALAR,
      attributes =
        [''name'' \<mapsto> scalar (PyStr name),
         ''categories'' \<mapsto>
            \<lparr>val_type = VECTOR, shape = [length categories], data = PyArray (map PyStr categories)\<rparr>,
         ''relations'' \<mapsto> \<lparr>val_type = FUNCTION, shape = [], data = relations\<rparr>,
         ''coherence_score'' \<mapsto> scalar (PyNum double_0_9),
         ''explanatory_power'' \<mapsto> scalar (PyNum double_0_8)]\<rparr>"

text \<open>The heap and the handover of \<^verbatim>\<open>run_distillation_demo\<close>.\<close>

definition demo_heap :: heap where
  "demo_heap =
     [rabbit \<mapsto> \<lparr>py_class = Class_Node, node_id = ''Rabbit_01'', state_space = SCALAR,
                  attributes = [''energy'' \<mapsto> scalar (PyNum 100), ''age'' \<mapsto> scalar (PyNum 0)]\<rparr>,
      fox \<mapsto> \<lparr>py_class = Class_Node, node_id = ''Fox_01'', state_space = SCALAR,
               attributes = [''energy'' \<mapsto> scalar (PyNum 150), ''age'' \<mapsto> scalar (PyNum 0)]\<rparr>,
      grass \<mapsto> \<lparr>py_class = Class_Node, node_id = ''Grass_Patch'', state_space = SCALAR,
                 attributes = [''biomass'' \<mapsto> scalar (PyNum 500)]\<rparr>]"

definition eat_grass_handover :: Handover where
  "eat_grass_handover =
     \<lparr>handover_id = ''EatGrass'', source = rabbit, target = grass, protocol = CONSERVATIVE,
      map_state = eat_grass_fn, fidelity = None\<rparr>"

section \<open>A communication between the ontologies of ontological\_demo.py\<close>

text \<open>
  ontological\_demo.py builds the two ontologies below. The scenario sends the demo's
  prompt from the human ontology to the ASI's:
  \<^verbatim>\<open>OntologicalCommunication(human_onto, asi_core_onto, "What is the meaning of life?")\<close>.
  In \<open>onto_heap_revised\<close> the target's coherence score has been lowered
  (\<^verbatim>\<open>asi_core_onto.attributes['coherence_score'].data = 0.5\<close>); the source is as before.
\<close>

definition human_onto :: Node where
  "human_onto = ontology_node ''HumanCommonSense''
     [''object'', ''cause'', ''time'', ''life'', ''meaning'']
     (PyDict [(''linear_causality'', PyBool True)])"

definition asi_core_onto :: Node where
  "asi_core_onto = ontology_node ''ASI_Level_7''
     [''process'', ''information'', ''entropy'', ''topology'']
     (PyDict [(''non_local_causality'', PyBool True)])"

definition human_ref :: ref where "human_ref = 0"
definition asi_ref :: ref where "asi_ref = 1"

definition onto_heap :: heap where
  "onto_heap = [human_ref \<mapsto> human_onto, asi_ref \<mapsto> asi_core_onto]"




definition comm_handover :: "string \<Rightarrow> string \<Rightarrow> ref \<Rightarrow> ref \<Rightarrow> string \<Rightarrow> Handover" where
  "comm_handover source_id target_id source_ref target_ref statement =
     \<lparr>handover_id = ''Comm_'' @ source_id @ ''_'' @ target_id,
      source = source_ref, target = target_ref, protocol = TRANSMUTATIVE,
      map_state = map_fn source_ref target_ref statement, fidelity = Some 0.95\<rparr>"

definition meaning_comm :: Handover where
  "meaning_comm = comm_handover ''Ontology_HumanCommonSense'' ''Ontology_ASI_Level_7''
     human_ref asi_ref ''What is the meaning of life?''"

section \<open>Properties\<close>

subsection \<open>Rounding to doubles\<close>

lemma floor_log2:
  assumes a: "2 powi e \<le> \<bar>x\<bar>" and b: "\<bar>x\<bar> < 2 powi (e + 1)"
  shows "\<lfloor>log 2 \<bar>x\<bar>\<rfloor> = e"
proof -
  have "0 < (2::real) powi e" by simp
  with a have pos: "0 < \<bar>x\<bar>" by linarith
  have 1: "(2::real) powr (of_int e) = 2 powi e"
    by (rule powr_real_of_int') simp_all
  have "(2::real) powr (of_int (e + 1)) = 2 powi (e + 1)"
    by (rule powr_real_of_int') simp_all
  then have 2: "(2::real) powr (of_int e + 1) = 2 powi (e + 1)" by simp
  show ?thesis
    using floor_log_eq_powr_iff [of "\<bar>x\<bar>" 2 e] pos a b 1 2 by simp
qed

lemma quantum_normal:
  "2 powi e \<le> \<bar>x\<bar> \<Longrightarrow> \<bar>x\<bar> < 2 powi (e + 1) \<Longrightarrow> - 1022 \<le> e \<Longrightarrow> quantum x = 2 powi (e - 52)"
  by (simp add: quantum_def binade_def floor_log2)

lemma quantum_subnormal:
  assumes nz: "x \<noteq> 0" and small: "\<bar>x\<bar> < 2 powi (- 1022)"
  shows "quantum x = 2 powi (- 1074)"
proof -
  have "(2::real) powr (of_int (- 1022)) = 2 powi (- 1022)"
    by (rule powr_real_of_int') simp_all
  then have "\<bar>x\<bar> < 2 powr (of_int (- 1022))" using small by simp
  then have "log 2 \<bar>x\<bar> < of_int (- 1022)"
    using nz by (subst log_less_iff) auto
  then have "\<lfloor>log 2 \<bar>x\<bar>\<rfloor> < - 1022" by (simp add: floor_less_iff)
  then show ?thesis by (simp add: quantum_def binade_def max_def)
qed

lemma round_even_near:
  assumes a: "\<bar>y - of_int m\<bar> < 1 / 2"
  shows "round_even y = m"
proof (cases "of_int m \<le> y")
  case True
  with a have "\<lfloor>y\<rfloor> = m" by (intro floor_unique) auto
  with a True show ?thesis by (simp add: round_even_def Let_def)
next
  case False
  with a have "\<lfloor>y\<rfloor> = m - 1" by (intro floor_unique) auto
  with a False show ?thesis by (auto simp: round_even_def Let_def)
qed

lemma round_even_tie:
  assumes a: "y = of_int n + 1 / 2"
  shows "round_even y = (if even n then n else n + 1)"
proof -
  from a have "\<lfloor>y\<rfloor> = n" by (intro floor_unique) auto
  with a show ?thesis by (simp add: round_even_def Let_def)
qed

lemma fl_normal:
  assumes "2 powi e \<le> \<bar>x\<bar>" and "\<bar>x\<bar> < 2 powi (e + 1)" and "- 1022 \<le> e"
      and "\<bar>x / 2 powi (e - 52) - of_int m\<bar> < 1 / 2"
      and "\<bar>real_of_int m * 2 powi (e - 52)\<bar> < 2 ^ 1024"
  shows "fl x = Finite (of_int m * 2 powi (e - 52))"
proof -
  have "0 < (2::real) powi e" by simp
  with assms(1) have "0 < \<bar>x\<bar>" by linarith
  then have nz: "x \<noteq> 0" by auto
  have q: "quantum x = 2 powi (e - 52)"
    using assms(1-3) by (rule quantum_normal)
  have r: "round_even (x / 2 powi (e - 52)) = m"
    using assms(4) by (rule round_even_near)
  from nz q r assms(5) show ?thesis
    by (simp add: fl_def Let_def)
qed

lemma fl_tie:
  assumes "2 powi e \<le> \<bar>x\<bar>" and "\<bar>x\<bar> < 2 powi (e + 1)" and "- 1022 \<le> e"
      and "x / 2 powi (e - 52) = of_int n + 1 / 2"
      and "\<bar>real_of_int (if even n then n else n + 1) * 2 powi (e - 52)\<bar> < 2 ^ 1024"
  shows "fl x = Finite (of_int (if even n then n else n + 1) * 2 powi (e - 52))"
proof -
  have "0 < (2::real) powi e" by simp
  with assms(1) have "0 < \<bar>x\<bar>" by linarith
  then have nz: "x \<noteq> 0" by auto
  have q: "quantum x = 2 powi (e - 52)"
    using assms(1-3) by (rule quantum_normal)
  have r: "round_even (x / 2 powi (e - 52)) = (if even n then n else n + 1)"
    using assms(4) by (rule round_even_tie)
  from nz q r assms(5) show ?thesis
    by (simp add: fl_def Let_def)
qed

lemma fl_overflow:
  assumes "2 powi e \<le> \<bar>x\<bar>" and "\<bar>x\<bar> < 2 powi (e + 1)" and "- 1022 \<le> e"
      and "\<bar>x / 2 powi (e - 52) - of_int m\<bar> < 1 / 2"
      and "2 ^ 1024 \<le> \<bar>real_of_int m * 2 powi (e - 52)\<bar>"
  shows "fl x = Infinite (0 < x)"
proof -
  have "0 < (2::real) powi e" by simp
  with assms(1) have "0 < \<bar>x\<bar>" by linarith
  then have nz: "x \<noteq> 0" by auto
  have q: "quantum x = 2 powi (e - 52)"
    using assms(1-3) by (rule quantum_normal)
  have r: "round_even (x / 2 powi (e - 52)) = m"
    using assms(4) by (rule round_even_near)
  from nz q r assms(5) show ?thesis
    by (simp add: fl_def Let_def)
qed

lemma fl_0: "fl 0 = Finite 0"
  by (simp add: fl_def)

lemma fl_1: "fl 1 = Finite 1"
  using fl_normal [of 0 1 "2 ^ 52"] by simp

lemma fl_2: "fl 2 = Finite 2"
  using fl_normal [of 1 2 "2 ^ 52"] by simp

lemma fl_3: "fl 3 = Finite 3"
  using fl_normal [of 1 3 "3 * 2 ^ 51"] by simp

lemma fl_0_5: "fl 0.5 = Finite 0.5"
  using fl_normal [of "- 1" "0.5" "2 ^ 52"] by simp

lemma fl_0_8: "fl 0.8 = Finite double_0_8"
  using fl_normal [of "- 1" "0.8" 7205759403792794] by (simp add: double_0_8_def)

lemma fl_0_9: "fl 0.9 = Finite double_0_9"
  using fl_normal [of "- 1" "0.9" 8106479329266893] by (simp add: double_0_9_def)

lemma fl_0_95: "fl 0.95 = Finite double_0_95"
  using fl_normal [of "- 1" "0.95" 8556839292003942] by (simp add: double_0_95_def)

lemma fl_1_1: "fl 1.1 = Finite double_1_1"
  using fl_normal [of 0 "1.1" 4953959590107546] by (simp add: double_1_1_def)

lemma fl_23651: "fl 23651 = Finite 23651"
  using fl_normal [of 14 23651 "23651 * 2 ^ 38"] by simp

text \<open>\<^verbatim>\<open>0.8 * 1.1\<close> is \<^verbatim>\<open>0.8800000000000001\<close>, and \<^verbatim>\<open>1.0 - 2.0**-60\<close> is \<^verbatim>\<open>1.0\<close>.\<close>

lemma fl_0_8_times_1_1: "fl (double_0_8 * double_1_1) = Finite double_0_8800000000000001"
  using fl_normal [of "- 1" "double_0_8 * double_1_1" 7926335344172074]
  by (simp add: double_0_8_def double_1_1_def double_0_8800000000000001_def)

lemma fl_below_1: "fl (1 - 1 / 2 ^ 60) = Finite 1"
  using fl_normal [of "- 1" "1 - 1 / 2 ^ 60" "2 ^ 53"] by simp

lemma dsub_below_1: "dsub (Finite 1) (Finite (1 / 2 ^ 60)) = Finite 1"
  using fl_below_1 by (simp add: dsub_def)

lemma fl_literals:
  "fl (1 / 2) = Finite (1 / 2)"
  "fl (4 / 5) = Finite double_0_8"
  "fl (9 / 10) = Finite double_0_9"
  "fl (11 / 10) = Finite double_1_1"
  using fl_0_5 fl_0_8 fl_0_9 fl_1_1 by simp_all

text \<open>
  \<^verbatim>\<open>float(2**53 + 1)\<close> is \<^verbatim>\<open>9007199254740992.0\<close>, a tie rounded to even, and
  \<^verbatim>\<open>float(2**1024)\<close> raises OverflowError.
\<close>

lemma fl_2_53_plus_1: "fl (2 ^ 53 + 1) = Finite (2 ^ 53)"
  using fl_tie [of 53 "2 ^ 53 + 1" "2 ^ 52"] by simp

lemma fl_2_1024: "fl (2 ^ 1024) = Infinite True"
  using fl_overflow [of 1024 "2 ^ 1024" "2 ^ 52"] by simp

lemma to_double_2_53_plus_1: "to_double (PyInteger (2 ^ 53 + 1)) = Inr (Finite (2 ^ 53))"
  using fl_2_53_plus_1 by simp

lemma to_double_2_1024: "to_double (PyInteger (2 ^ 1024)) = Inl OverflowError"
  using fl_2_1024 by simp

subsection \<open>Constructors\<close>


lemma FoundationModel_init_node:
  "to_double founding_year = Inr (Finite y) \<Longrightarrow>
   FoundationModel_init founding_year = Inr (foundation_node y)"
  by (simp add: FoundationModel_init_def Node_init_def ANLValue_init_def validate_def
      scalar_of_def float_call_def float_literal_def fl_0 fl_1 fl_literals
      foundation_node_def scalar_def)

lemma FoundationModel_init_default:
  "FoundationModel_init (PyInteger 23651) = Inr (foundation_node 23651)"
  by (rule FoundationModel_init_node) (simp add: fl_23651)

lemma PsychohistoryModel_init_node:
  "PsychohistoryModel_init accuracy = Inr (psychohistory_node accuracy)"
  by (simp add: PsychohistoryModel_init_def Node_init_def ANLValue_init_def validate_def
      psychohistory_node_def scalar_def)

lemma dims_of_strings: "dims_of (PyArray (map PyStr cs)) = [length cs]"
  by (cases cs) simp_all

lemma dims_of_np_array: "dims_of (np_array xs) = [length xs]"
  by (cases xs) (simp_all add: np_array_def)

lemma Ontology_init_node:
  "Ontology_init name categories relations = Inr (ontology_node name categories relations)"
  by (simp add: Ontology_init_def Node_init_def ANLValue_init_def validate_def dims_of_strings
      scalar_of_def float_literal_def fl_literals ontology_node_def scalar_def)

lemma PlanetModel_init_coords:
  "to_double population = Inr (Finite pop) \<Longrightarrow>
   PlanetModel_init name coords population tech_level =
     (if length coords = 3 then Inr (planet_node name coords pop tech_level)
      else Inl ShapeMismatch)"
  by (simp add: PlanetModel_init_def Node_init_def ANLValue_init_def validate_def dims_of_np_array
      scalar_of_def float_call_def planet_node_def scalar_def)

lemma PlanetModel_init_population_too_large:
  "to_double population = Inl OverflowError \<Longrightarrow>
   PlanetModel_init name coords population tech_level =
     (if length coords = 3 then Inl OverflowError else Inl ShapeMismatch)"
  by (simp add: PlanetModel_init_def Node_init_def ANLValue_init_def validate_def dims_of_np_array
      scalar_of_def float_call_def)

lemma PlanetModel_init_rounds_population:
  "PlanetModel_init name [x, y, z] (PyInteger (2 ^ 53 + 1)) tech_level
     = Inr (planet_node name [x, y, z] (2 ^ 53) tech_level)"
  using PlanetModel_init_coords [OF to_double_2_53_plus_1, of name "[x, y, z]" tech_level]
  by simp

lemma PlanetModel_init_population_overflow:
  "PlanetModel_init name [x, y, z] (PyInteger (2 ^ 1024)) tech_level = Inl OverflowError"
  using PlanetModel_init_population_too_large [OF to_double_2_1024, of name "[x, y, z]" tech_level]
  by simp

lemma human_onto_init:
  "Ontology_init ''HumanCommonSense'' [''object'', ''cause'', ''time'', ''life'', ''meaning'']
     (PyDict [(''linear_causality'', PyBool True)]) = Inr human_onto"
  by (simp add: Ontology_init_node human_onto_def)

lemma asi_core_onto_init:
  "Ontology_init ''ASI_Level_7'' [''process'', ''information'', ''entropy'', ''topology'']
     (PyDict [(''non_local_causality'', PyBool True)]) = Inr asi_core_onto"
  by (simp add: Ontology_init_node asi_core_onto_def)

lemma OntologicalCommunication_init_handover:
  "h s = Some a \<Longrightarrow> h t = Some b \<Longrightarrow>
   OntologicalCommunication_init h s t statement = Inr (comm_handover (node_id a) (node_id b) s t statement)"
  by (simp add: OntologicalCommunication_init_def Handover_init_def comm_handover_def)

lemma OntologicalCommunication_init_Inr:
  "OntologicalCommunication_init h0 s t statement = Inr ho \<Longrightarrow>
   map_state ho = map_fn s t statement \<and> source ho = s \<and> target ho = t \<and>
   protocol ho = TRANSMUTATIVE \<and> fidelity ho = Some 0.95"
  by (auto simp: OntologicalCommunication_init_def Handover_init_def split: option.splits)

lemma map_fn_reads:
  "h' s = h s \<Longrightarrow> h' t = h t \<Longrightarrow> map_fn s t statement h' src' = map_fn s t statement h src"
  by (simp add: map_fn_def cong: option.case_cong if_cong)

lemma robot_node_attributes:
  "read_data (robot_node model series brain_potential) ''brain_potential''
     = Inr (PyNum brain_potential)"
  "attributes (robot_node model series brain_potential) ''zeroth_law_aware'' \<noteq> None"
  by (simp_all add: robot_node_def read_data_def scalar_def)

lemma foundation_node_attributes:
  "read_data (foundation_node founding_year) ''current_crisis'' = Inr (PyNum 0)"
  "read_data (foundation_node founding_year) ''scientific_superiority'' = Inr (PyNum double_0_8)"
  "read_data (foundation_node founding_year) ''subject_worlds'' = Inr (PyNum 1)"
  by (simp_all add: foundation_node_def read_data_def scalar_def)

subsection \<open>Reading and writing attribute data\<close>

lemma read_data_write_data:
  "attributes n name \<noteq> None \<Longrightarrow> read_data (fst (write_data n name v)) name = Inr v"
  by (auto simp: read_data_def write_data_def)

lemma write_data_absent:
  "attributes n name = None \<Longrightarrow> write_data n name v = (n, Inl (KeyError name))"
  by (simp add: write_data_def)

lemma dom_write_data:
  "dom (attributes (fst (write_data n name v))) = dom (attributes n)"
  by (auto simp: write_data_def split: option.splits)

subsection \<open>run\_distillation\_demo\<close>

lemma demo_entities_heap: "demo_entities = Inr demo_heap"
  by (simp add: demo_entities_def Node_init_def ANLValue_init_def validate_def demo_heap_def scalar_def)

lemma eat_grass_handover_ok: "eat_grass = Inr eat_grass_handover"
  by (simp add: eat_grass_def Handover_init_def eat_grass_handover_def)

lemma execute_eat: "execute eat_grass_handover h = (h, Inr (PyNum 10, None))"
  by (simp add: execute_def eat_grass_handover_def eat_grass_fn_def)

lemma demo_before:
  "heap_data demo_heap rabbit ''energy'' = Inr (PyNum 100)"
  "heap_data demo_heap grass ''biomass'' = Inr (PyNum 500)"
  by (simp_all add: heap_data_def demo_heap_def rabbit_def grass_def fox_def read_data_def scalar_def)

lemma apply_gain_demo:
  "snd (apply_gain demo_heap (PyNum 10)) = Inr ()"
  "heap_data (fst (apply_gain demo_heap (PyNum 10))) rabbit ''energy'' = Inr (PyNum 110)"
  "heap_data (fst (apply_gain demo_heap (PyNum 10))) grass ''biomass'' = Inr (PyNum 490)"
  by (simp_all add: apply_gain_def on_node_def iadd_data_def isub_data_def py_sub_def
       heap_data_def demo_heap_def rabbit_def grass_def fox_def read_data_def write_data_def scalar_def)

lemma run_demo: "run_distillation_demo = apply_gain demo_heap (PyNum 10)"
  by (simp add: run_distillation_demo_def demo_entities_heap eat_grass_handover_ok simulate_step_def execute_eat)

text \<open>
  C1: in \<^verbatim>\<open>run_distillation_demo\<close> the source Rabbit starts with energy 100.0 and the
  target Grass with biomass 500.0. The conservative handover EatGrass, whose mapping
  function returns the constant 10.0, executes to the value 10.0 and leaves the
  entities as they were; the caller's two assignments then give Rabbit.energy = 110.0
  and Grass.biomass = 490.0. The sum energy + biomass is 600.0 before and after, so
  the two totals differ by no more than 1e-9.
\<close>

theorem distillation_demo_conserves:
  "demo_entities = Inr demo_heap \<and>
   eat_grass = Inr eat_grass_handover \<and>
   source eat_grass_handover = rabbit \<and>
   target eat_grass_handover = grass \<and>
   protocol eat_grass_handover = CONSERVATIVE \<and>
   execute eat_grass_handover demo_heap = (demo_heap, Inr (PyNum 10, None)) \<and>
   snd run_distillation_demo = Inr () \<and>
   (\<exists>e0 b0 e1 b1.
      heap_data demo_heap rabbit ''energy'' = Inr (PyNum e0) \<and> e0 = 100 \<and>
      heap_data demo_heap grass ''biomass'' = Inr (PyNum b0) \<and> b0 = 500 \<and>
      heap_data (fst run_distillation_demo) rabbit ''energy'' = Inr (PyNum e1) \<and> e1 = 110 \<and>
      heap_data (fst run_distillation_demo) grass ''biomass'' = Inr (PyNum b1) \<and> b1 = 490 \<and>
      e0 + b0 = 600 \<and> e1 + b1 = 600 \<and>
      \<bar>(e0 + b0) - (e1 + b1)\<bar> \<le> 1 / 10 ^ 9)"
proof -
  have h: "source eat_grass_handover = rabbit \<and> target eat_grass_handover = grass \<and>
      protocol eat_grass_handover = CONSERVATIVE"
    by (simp add: eat_grass_handover_def)
  have ok: "snd run_distillation_demo = Inr ()"
    by (simp add: run_demo apply_gain_demo)
  have e: "heap_data (fst run_distillation_demo) rabbit ''energy'' = Inr (PyNum 110)"
    by (simp add: run_demo apply_gain_demo)
  have b: "heap_data (fst run_distillation_demo) grass ''biomass'' = Inr (PyNum 490)"
    by (simp add: run_demo apply_gain_demo)
  have totals: "\<exists>e0 b0 e1 b1.
      heap_data demo_heap rabbit ''energy'' = Inr (PyNum e0) \<and> e0 = 100 \<and>
      heap_data demo_heap grass ''biomass'' = Inr (PyNum b0) \<and> b0 = 500 \<and>
      heap_data (fst run_distillation_demo) rabbit ''energy'' = Inr (PyNum e1) \<and> e1 = 110 \<and>
      heap_data (fst run_distillation_demo) grass ''biomass'' = Inr (PyNum b1) \<and> b1 = 490 \<and>
      e0 + b0 = 600 \<and> e1 + b1 = 600 \<and>
      \<bar>(e0 + b0) - (e1 + b1)\<bar> \<le> 1 / 10 ^ 9"
    using demo_before e b by simp
  from demo_entities_heap eat_grass_handover_ok h execute_eat [of demo_heap] ok totals
  show ?thesis by blast
qed

subsection \<open>Repeated execution\<close>

lemma meaning_comm_init:
  "OntologicalCommunication_init onto_heap human_ref asi_ref ''What is the meaning of life?''
     = Inr meaning_comm"
proof -
  have a: "onto_heap human_ref = Some human_onto" and b: "onto_heap asi_ref = Some asi_core_onto"
    by (simp_all add: onto_heap_def human_ref_def asi_ref_def)
  show ?thesis
    using OntologicalCommunication_init_handover [OF a b, of "''What is the meaning of life?''"]
    by (simp add: human_onto_def asi_core_onto_def ontology_node_def meaning_comm_def)
qed


lemma eat_grass_fn_constant: "eat_grass_fn h' src' = eat_grass_fn h src"
  by (simp add: eat_grass_fn_def)





subsection \<open>Constructing typed values\<close>

text \<open>
  C4: constructing a VECTOR value fails with ShapeMismatch when the dimensionality of
  the data differs from the declared shape, and succeeds (storing kind, shape and data)
  when the two are equal.
\<close>

theorem vector_construction:
  "(dims_of d \<noteq> s \<longrightarrow> ANLValue_init VECTOR s d = Inl ShapeMismatch) \<and>
   (dims_of d = s \<longrightarrow> ANLValue_init VECTOR s d = Inr \<lparr>val_type = VECTOR, shape = s, data = d\<rparr>)"
  by (simp add: ANLValue_init_def validate_def)

text \<open>
  The theorem at the \<^verbatim>\<open>coords\<close> attribute of PlanetModel, declared with shape (3,): two
  coordinates are rejected, Trantor's three (asimov\_demo.py) are accepted.
\<close>

theorem vector_construction_coords:
  "dims_of (np_array [0, 0]) \<noteq> [3] \<and>
   ANLValue_init VECTOR [3] (np_array [0, 0]) = Inl ShapeMismatch \<and>
   dims_of (np_array [0, 0, 100]) = [3] \<and>
   ANLValue_init VECTOR [3] (np_array [0, 0, 100])
     = Inr \<lparr>val_type = VECTOR, shape = [3], data = np_array [0, 0, 100]\<rparr>"
proof -
  have a: "dims_of (np_array [0, 0]) \<noteq> [3]" by (simp add: dims_of_np_array)
  have b: "dims_of (np_array [0, 0, 100]) = [3]" by (simp add: dims_of_np_array)
  from vector_construction [of "np_array [0, 0]" "[3]"] vector_construction [of "np_array [0, 0, 100]" "[3]"] a b
  show ?thesis by blast
qed

subsection \<open>Constructing transmutative handovers\<close>

text \<open>
  C5: a TRANSMUTATIVE handover needs a fidelity in [0,1]. Construction without a
  fidelity fails with MissingFidelity, with fidelity 1.5 it fails with
  FidelityOutOfRange, and with fidelity 0.95 it succeeds and execute() returns the
  fidelity 0.95 beside the value; construction succeeds exactly when a fidelity
  between 0 and 1 is given. An OntologicalCommunication, which passes 0.95, is such a
  handover.
\<close>

theorem transmutative_fidelity:
  "Handover_init i s t TRANSMUTATIVE f None = Inl MissingFidelity \<and>
   Handover_init i s t TRANSMUTATIVE f (Some 1.5) = Inl FidelityOutOfRange \<and>
   (\<exists>ho. Handover_init i s t TRANSMUTATIVE f (Some 0.95) = Inr ho \<and>
      fidelity ho = Some 0.95 \<and>
      snd (execute ho h) =
        (case f h s of
           Inl e \<Rightarrow> Inl (HandoverExecutionFailed i e)
         | Inr v \<Rightarrow> Inr (v, Some 0.95))) \<and>
   ((\<exists>ho. Handover_init i s t TRANSMUTATIVE f fid = Inr ho) \<longleftrightarrow> (\<exists>x. fid = Some x \<and> 0 \<le> x \<and> x \<le> 1)) \<and>
   (OntologicalCommunication_init h0 a b statement = Inr oc \<longrightarrow>
      protocol oc = TRANSMUTATIVE \<and> fidelity oc = Some 0.95 \<and>
      (\<forall>v. map_state oc h (source oc) = Inr v \<longrightarrow> snd (execute oc h) = Inr (v, Some 0.95)))"
proof (intro conjI impI)
  show "Handover_init i s t TRANSMUTATIVE f None = Inl MissingFidelity"
    by (simp add: Handover_init_def)
  show "Handover_init i s t TRANSMUTATIVE f (Some 1.5) = Inl FidelityOutOfRange"
    by (simp add: Handover_init_def)
  show "\<exists>ho. Handover_init i s t TRANSMUTATIVE f (Some 0.95) = Inr ho \<and>
      fidelity ho = Some 0.95 \<and>
      snd (execute ho h) =
        (case f h s of
           Inl e \<Rightarrow> Inl (HandoverExecutionFailed i e)
         | Inr v \<Rightarrow> Inr (v, Some 0.95))"
    by (simp add: Handover_init_def execute_def split: sum.splits)
  show "(\<exists>ho. Handover_init i s t TRANSMUTATIVE f fid = Inr ho) \<longleftrightarrow> (\<exists>x. fid = Some x \<and> 0 \<le> x \<and> x \<le> 1)"
    by (cases fid) (simp_all add: Handover_init_def)
next
  assume "OntologicalCommunication_init h0 a b statement = Inr oc"
  then have *: "protocol oc = TRANSMUTATIVE \<and> fidelity oc = Some 0.95"
    using OntologicalCommunication_init_Inr by blast
  then show "protocol oc = TRANSMUTATIVE" and "fidelity oc = Some 0.95" by simp_all
  from * show "\<forall>v. map_state oc h (source oc) = Inr v \<longrightarrow> snd (execute oc h) = Inr (v, Some 0.95)"
    by (simp add: execute_def)
qed

text \<open>
  The theorem at the communication between the two demo ontologies.
\<close>

theorem transmutative_fidelity_meaning_comm:
  "OntologicalCommunication_init onto_heap human_ref asi_ref ''What is the meaning of life?''
     = Inr meaning_comm \<and>
   map_state meaning_comm onto_heap (source meaning_comm)
     = Inr (PyStr (''Statement '' @ [CHR 0x27] @ ''What is the meaning of life?'' @ [CHR 0x27]
                    @ '' translated from Ontology_HumanCommonSense to Ontology_ASI_Level_7'')) \<and>
   protocol meaning_comm = TRANSMUTATIVE \<and>
   fidelity meaning_comm = Some 0.95 \<and>
   snd (execute meaning_comm onto_heap)
     = Inr (PyStr (''Statement '' @ [CHR 0x27] @ ''What is the meaning of life?'' @ [CHR 0x27]
                    @ '' translated from Ontology_HumanCommonSense to Ontology_ASI_Level_7''), Some 0.95) \<and>
   Handover_init (handover_id meaning_comm) human_ref asi_ref TRANSMUTATIVE
     (map_state meaning_comm) None = Inl MissingFidelity \<and>
   Handover_init (handover_id meaning_comm) human_ref asi_ref TRANSMUTATIVE
     (map_state meaning_comm) (Some 1.5) = Inl FidelityOutOfRange"
proof -
  have m: "map_state meaning_comm onto_heap (source meaning_comm)
     = Inr (PyStr (''Statement '' @ [CHR 0x27] @ ''What is the meaning of life?'' @ [CHR 0x27]
                    @ '' translated from Ontology_HumanCommonSense to Ontology_ASI_Level_7''))"
    by (simp add: meaning_comm_def comm_handover_def map_fn_def translate_def onto_heap_def
        human_ref_def asi_ref_def human_onto_def asi_core_onto_def ontology_node_def)
  from transmutative_fidelity [of "handover_id meaning_comm" human_ref asi_ref
      "map_state meaning_comm" onto_heap None onto_heap human_ref asi_ref
      "''What is the meaning of life?''" meaning_comm] meaning_comm_init m
  show ?thesis by blast
qed

subsection \<open>Attribute access\<close>

lemma get_attribute_read_data:
  "get_attribute n name = Inr tv \<Longrightarrow> read_data n name = Inr (data tv)"
  by (auto simp: get_attribute_def read_data_def split: option.splits)

lemma get_attribute_absent_read_data:
  "get_attribute n name = Inl UnknownAttribute \<longleftrightarrow> read_data n name = Inl (KeyError name)"
  by (auto simp: get_attribute_def read_data_def split: option.splits)

lemma mentalic_manipulation_no_power_attribute:
  "attributes source_node ''mentalic_power'' = None \<Longrightarrow>
   mentalic_manipulation source_node target_node required_power
     = (target_node, Inl (KeyError ''mentalic_power''))"
  by (simp add: mentalic_manipulation_def read_data_def)

lemma mentalic_manipulation_no_stability_index:
  "attributes target_node ''stability_index'' = None \<Longrightarrow>
   fst (mentalic_manipulation source_node target_node required_power) = target_node"
  by (auto simp: mentalic_manipulation_def split: sum.splits)

lemma inplace_data_absent:
  "attributes n name = None \<Longrightarrow> inplace_data binop n name v = (n, Inl (KeyError name))"
  by (simp add: inplace_data_def read_data_def)

text \<open>
  C6: when set\_attribute(name, v) succeeds, get\_attribute(name) on the resulting
  entity returns a typed value whose data is v. On a name the entity does not have,
  get\_attribute and set\_attribute fail with UnknownAttribute and the entity is
  unchanged. set\_attribute never changes the set of attribute names, so a name is
  absent exactly when it was not declared at construction.
\<close>

theorem attribute_roundtrip:
  "(snd (set_attribute n name v) = Inr () \<longrightarrow>
      (\<exists>tv. get_attribute (fst (set_attribute n name v)) name = Inr tv \<and> data tv = v)) \<and>
   (attributes n name = None \<longrightarrow>
      get_attribute n name = Inl UnknownAttribute \<and>
      set_attribute n name v = (n, Inl UnknownAttribute)) \<and>
   dom (attributes (fst (set_attribute n name v))) = dom (attributes n)"
  by (auto simp: set_attribute_def get_attribute_def TypedValue_set_def
      split: option.splits sum.splits)

text \<open>
  The theorem at R. Daneel Olivaw: brain\_potential is set and read back;
  stability\_index was never declared.
\<close>

theorem attribute_roundtrip_daneel:
  "snd (set_attribute (robot_node ''Humaniform'' ''R. Daneel Olivaw'' 0.99) ''brain_potential'' (PyNum 0.7))
     = Inr () \<and>
   (\<exists>tv. get_attribute
      (fst (set_attribute (robot_node ''Humaniform'' ''R. Daneel Olivaw'' 0.99) ''brain_potential'' (PyNum 0.7)))
      ''brain_potential'' = Inr tv \<and> data tv = PyNum 0.7) \<and>
   attributes (robot_node ''Humaniform'' ''R. Daneel Olivaw'' 0.99) ''stability_index'' = None \<and>
   get_attribute (robot_node ''Humaniform'' ''R. Daneel Olivaw'' 0.99) ''stability_index''
     = Inl UnknownAttribute \<and>
   set_attribute (robot_node ''Humaniform'' ''R. Daneel Olivaw'' 0.99) ''stability_index'' (PyNum 1)
     = (robot_node ''Humaniform'' ''R. Daneel Olivaw'' 0.99, Inl UnknownAttribute)"
proof -
  let ?r = "robot_node ''Humaniform'' ''R. Daneel Olivaw'' 0.99"
  have s: "snd (set_attribute ?r ''brain_potential'' (PyNum 0.7)) = Inr ()"
    by (simp add: set_attribute_def TypedValue_set_def validate_def robot_node_def scalar_def)
  have a: "attributes ?r ''stability_index'' = None"
    by (simp add: robot_node_def)
  from attribute_roundtrip [of ?r "''brain_potential''" "PyNum 0.7"] s
  have g: "\<exists>tv. get_attribute (fst (set_attribute ?r ''brain_potential'' (PyNum 0.7)))
      ''brain_potential'' = Inr tv \<and> data tv = PyNum 0.7"
    by blast
  from attribute_roundtrip [of ?r "''stability_index''" "PyNum 1"] s g a
  show ?thesis by blast
qed

subsection \<open>RobotModel.evolve\<close>




text \<open>
  A node that satisfies the two hypotheses still satisfies them after evolve, with a
  value of at most 1.0, so from the second call on brain\_potential never decreases
  under dt \<ge> 0.
\<close>

lemma evolve_keeps_robot:
  assumes "read_data r ''brain_potential'' = Inr (PyNum old)"
      and "attributes r ''zeroth_law_aware'' \<noteq> None"
  shows "attributes (fst (evolve r dt experience)) ''zeroth_law_aware'' \<noteq> None"
  using assms
  by (auto simp: evolve_def read_data_def write_data_def Let_def split: option.splits)

subsection \<open>seldon\_crisis\<close>

lemma num_add_small_int:
  "num_add (PyFloating (Finite x)) (PyInteger 1) = Inr (PyFloating (fl (x + 1)))"
  "num_add (PyFloating (Finite x)) (PyInteger 2) = Inr (PyFloating (fl (x + 2)))"
  by (simp_all add: num_add_def fl_1 fl_2)

lemma num_mul_literal:
  "num_mul (PyFloating (Finite x)) (float_literal 1.1) = Inr (PyFloating (fl (x * double_1_1)))"
  by (simp add: num_mul_def float_literal_def fl_1_1)

lemma crisis_test_literal:
  "num_less a (float_literal 1) = dless (exact_value a) (Finite 1)"
  by (simp add: num_less_def float_literal_def fl_1)

lemma seldon_crisis_no_crisis:
  "num_sub current_time crisis_time = Inr d \<Longrightarrow>
   \<not> dless (exact_value (num_abs d)) (Finite 1) \<Longrightarrow>
   seldon_crisis f p current_time crisis_time = (f, Inr False)"
  by (simp add: seldon_crisis_def crisis_test_literal)

text \<open>
  C9 (as amended): take a foundation node, one whose current\_crisis,
  scientific\_superiority and subject\_worlds hold the floats c, s and w, and two
  times whose difference Python computes as d (exactly for two ints, rounded to the
  nearest double when a float is involved). seldon\_crisis returns True if and only
  if abs(d) < 1.0. When it returns False the node is left as it was. When it returns
  True, current\_crisis is the double nearest to c + 1, scientific\_superiority the
  double nearest to the product of s and the double 1.1, and subject\_worlds the
  double nearest to w + 2 (these being finite); every other attribute, the declared
  type and shape of every attribute, and the node's class, id and state space are
  unchanged.
\<close>

theorem seldon_crisis_effect:
  assumes "read_data f ''current_crisis'' = Inr (PyNum c)"
      and "read_data f ''scientific_superiority'' = Inr (PyNum s)"
      and "read_data f ''subject_worlds'' = Inr (PyNum w)"
      and "num_sub current_time crisis_time = Inr d"
      and "fl (c + 1) = Finite c'"
      and "fl (s * double_1_1) = Finite s'"
      and "fl (w + 2) = Finite w'"
  shows "snd (seldon_crisis f p current_time crisis_time)
           = Inr (dless (exact_value (num_abs d)) (Finite 1)) \<and>
         (\<not> dless (exact_value (num_abs d)) (Finite 1) \<longrightarrow>
            fst (seldon_crisis f p current_time crisis_time) = f) \<and>
         (dless (exact_value (num_abs d)) (Finite 1) \<longrightarrow>
            read_data (fst (seldon_crisis f p current_time crisis_time)) ''current_crisis''
              = Inr (PyNum c') \<and>
            read_data (fst (seldon_crisis f p current_time crisis_time)) ''scientific_superiority''
              = Inr (PyNum s') \<and>
            read_data (fst (seldon_crisis f p current_time crisis_time)) ''subject_worlds''
              = Inr (PyNum w') \<and>
            (\<forall>name. name \<notin> {''current_crisis'', ''scientific_superiority'', ''subject_worlds''} \<longrightarrow>
               attributes (fst (seldon_crisis f p current_time crisis_time)) name
                 = attributes f name) \<and>
            (\<forall>name.
               map_option val_type (attributes (fst (seldon_crisis f p current_time crisis_time)) name)
                 = map_option val_type (attributes f name) \<and>
               map_option shape (attributes (fst (seldon_crisis f p current_time crisis_time)) name)
                 = map_option shape (attributes f name)) \<and>
            py_class (fst (seldon_crisis f p current_time crisis_time)) = py_class f \<and>
            node_id (fst (seldon_crisis f p current_time crisis_time)) = node_id f \<and>
            state_space (fst (seldon_crisis f p current_time crisis_time)) = state_space f)"
proof -
  obtain a1 where a1: "attributes f ''current_crisis'' = Some a1" "data a1 = PyNum c"
    using assms(1) by (auto simp: read_data_def split: option.splits)
  obtain a2 where a2: "attributes f ''scientific_superiority'' = Some a2" "data a2 = PyNum s"
    using assms(2) by (auto simp: read_data_def split: option.splits)
  obtain a3 where a3: "attributes f ''subject_worlds'' = Some a3" "data a3 = PyNum w"
    using assms(3) by (auto simp: read_data_def split: option.splits)
  let ?f1 = "f\<lparr>attributes := (attributes f)(''current_crisis'' \<mapsto> a1\<lparr>data := PyNum c'\<rparr>)\<rparr>"
  let ?f2 = "?f1\<lparr>attributes := (attributes ?f1)(''scientific_superiority'' \<mapsto> a2\<lparr>data := PyNum s'\<rparr>)\<rparr>"
  let ?f3 = "?f2\<lparr>attributes := (attributes ?f2)(''subject_worlds'' \<mapsto> a3\<lparr>data := PyNum w'\<rparr>)\<rparr>"
  have s1: "inplace_data num_add f ''current_crisis'' (PyInteger 1) = (?f1, Inr ())"
    using a1 assms(5)
    by (simp add: inplace_data_def read_data_def write_data_def num_add_small_int)
  have s2: "inplace_data num_mul ?f1 ''scientific_superiority'' (float_literal 1.1) = (?f2, Inr ())"
    using a2 assms(6)
    by (simp add: inplace_data_def read_data_def write_data_def num_mul_literal)
  have s3: "inplace_data num_add ?f2 ''subject_worlds'' (PyInteger 2) = (?f3, Inr ())"
    using a3 assms(7)
    by (simp add: inplace_data_def read_data_def write_data_def num_add_small_int)
  have run: "seldon_crisis f p current_time crisis_time
      = (if dless (exact_value (num_abs d)) (Finite 1) then (?f3, Inr True) else (f, Inr False))"
    using assms(4) s1 s2 s3
    by (simp add: seldon_crisis_def crisis_test_literal)
  show ?thesis
    using a1 a2 a3 by (simp add: run read_data_def)
qed

text \<open>
  The theorem at the first crisis of asimov\_demo.py,
  \<^verbatim>\<open>seldon_crisis(foundation.node, psychohistory.node, 23701, 23701)\<close> on the node
  \<^verbatim>\<open>FoundationModel()\<close> builds, with the node of \<^verbatim>\<open>PsychohistoryModel()\<close> (accuracy
  0.95): the difference is the int 0, and the node is left with 1.0,
  0.8800000000000001 and 3.0.
\<close>

theorem seldon_crisis_effect_first_crisis:
  "FoundationModel_init (PyInteger 23651) = Inr (foundation_node 23651) \<and>
   read_data (foundation_node 23651) ''current_crisis'' = Inr (PyNum 0) \<and>
   read_data (foundation_node 23651) ''scientific_superiority'' = Inr (PyNum double_0_8) \<and>
   read_data (foundation_node 23651) ''subject_worlds'' = Inr (PyNum 1) \<and>
   num_sub (PyInteger 23701) (PyInteger 23701) = Inr (PyInteger 0) \<and>
   fl (0 + 1) = Finite 1 \<and>
   fl (double_0_8 * double_1_1) = Finite double_0_8800000000000001 \<and>
   fl (1 + 2) = Finite 3 \<and>
   snd (seldon_crisis (foundation_node 23651) (Some (psychohistory_node double_0_95))
          (PyInteger 23701) (PyInteger 23701)) = Inr True \<and>
   read_data (fst (seldon_crisis (foundation_node 23651) (Some (psychohistory_node double_0_95))
          (PyInteger 23701) (PyInteger 23701))) ''current_crisis'' = Inr (PyNum 1) \<and>
   read_data (fst (seldon_crisis (foundation_node 23651) (Some (psychohistory_node double_0_95))
          (PyInteger 23701) (PyInteger 23701))) ''scientific_superiority''
     = Inr (PyNum double_0_8800000000000001) \<and>
   read_data (fst (seldon_crisis (foundation_node 23651) (Some (psychohistory_node double_0_95))
          (PyInteger 23701) (PyInteger 23701))) ''subject_worlds'' = Inr (PyNum 3) \<and>
   attributes (fst (seldon_crisis (foundation_node 23651) (Some (psychohistory_node double_0_95))
          (PyInteger 23701) (PyInteger 23701))) ''phase''
     = attributes (foundation_node 23651) ''phase''"
proof -
  let ?f = "foundation_node 23651"
  let ?p = "Some (psychohistory_node double_0_95)"
  have d: "num_sub (PyInteger 23701) (PyInteger 23701) = Inr (PyInteger 0)"
    by (simp add: num_sub_def)
  have c: "fl (0 + 1) = Finite 1" by (simp add: fl_1)
  have w: "fl (1 + 2) = Finite 3" by (simp add: fl_3)
  have hit: "snd (seldon_crisis ?f ?p (PyInteger 23701) (PyInteger 23701)) = Inr True \<and>
     read_data (fst (seldon_crisis ?f ?p (PyInteger 23701) (PyInteger 23701))) ''current_crisis''
       = Inr (PyNum 1) \<and>
     read_data (fst (seldon_crisis ?f ?p (PyInteger 23701) (PyInteger 23701)))
       ''scientific_superiority'' = Inr (PyNum double_0_8800000000000001) \<and>
     read_data (fst (seldon_crisis ?f ?p (PyInteger 23701) (PyInteger 23701))) ''subject_worlds''
       = Inr (PyNum 3) \<and>
     attributes (fst (seldon_crisis ?f ?p (PyInteger 23701) (PyInteger 23701))) ''phase''
       = attributes ?f ''phase''"
    using seldon_crisis_effect [OF foundation_node_attributes [of 23651] d c fl_0_8_times_1_1 w, of ?p]
    by simp
  from FoundationModel_init_default foundation_node_attributes [of 23651] d c fl_0_8_times_1_1 w hit
  show ?thesis by blast
qed

text \<open>
  The claim as first stated fails in two places. The times 1.0 and 2.0**-60 differ by
  less than 1.0, but Python rounds their difference to 1.0 and seldon\_crisis returns
  False and leaves the node as it was. And at the demo's first crisis the stored
  scientific\_superiority, 0.8800000000000001, is not 1.1 times the value stored
  before it.
\<close>

theorem seldon_crisis_rounds:
  "FoundationModel_init (PyInteger 23651) = Inr (foundation_node 23651) \<and>
   \<bar>1 - 1 / 2 ^ 60\<bar> < (1::real) \<and>
   seldon_crisis (foundation_node 23651) None
     (PyFloating (Finite 1)) (PyFloating (Finite (1 / 2 ^ 60)))
     = (foundation_node 23651, Inr False) \<and>
   read_data (foundation_node 23651) ''scientific_superiority'' = Inr (PyNum double_0_8) \<and>
   snd (seldon_crisis (foundation_node 23651) None (PyInteger 23701) (PyInteger 23701))
     = Inr True \<and>
   read_data (fst (seldon_crisis (foundation_node 23651) None (PyInteger 23701) (PyInteger 23701)))
     ''scientific_superiority'' = Inr (PyNum double_0_8800000000000001) \<and>
   double_0_8800000000000001 \<noteq> double_0_8 * 1.1"
proof -
  let ?f = "foundation_node 23651"
  have lt: "\<bar>1 - 1 / 2 ^ 60\<bar> < (1::real)" by simp
  have sub: "num_sub (PyFloating (Finite 1)) (PyFloating (Finite (1 / 2 ^ 60)))
      = Inr (PyFloating (Finite 1))"
    by (simp add: num_sub_def dsub_below_1 del: power_numeral)
  have miss: "seldon_crisis ?f None (PyFloating (Finite 1)) (PyFloating (Finite (1 / 2 ^ 60)))
      = (?f, Inr False)"
    by (rule seldon_crisis_no_crisis [OF sub]) simp
  have hit: "snd (seldon_crisis ?f None (PyInteger 23701) (PyInteger 23701)) = Inr True \<and>
     read_data (fst (seldon_crisis ?f None (PyInteger 23701) (PyInteger 23701)))
       ''scientific_superiority'' = Inr (PyNum double_0_8800000000000001)"
    by (simp add: seldon_crisis_def num_sub_def crisis_test_literal inplace_data_def
        num_add_small_int num_mul_literal fl_1 fl_3 fl_0_8_times_1_1
        foundation_node_def read_data_def write_data_def scalar_def)
  have ne: "double_0_8800000000000001 \<noteq> double_0_8 * 1.1"
    by (simp add: double_0_8800000000000001_def double_0_8_def)
  from FoundationModel_init_default lt miss foundation_node_attributes(2) [of 23651] hit ne
  show ?thesis by blast
qed

subsection \<open>inheritance\_daneel\<close>

text \<open>
  C10: inheritance\_daneel depends only on current\_time. For any two pairs of node
  arguments and the same time it returns the same value: 0.9 before 3624, 0.5 from
  3624 up to (not including) 12000, and 0.3 from 12000 on.
\<close>

theorem inheritance_daneel_only_time:
  "inheritance_daneel d1 t1 current_time = inheritance_daneel d2 t2 current_time
   \<and> inheritance_daneel d1 t1 current_time =
       (if current_time < 3624 then 0.9 else if current_time < 12000 then 0.5 else 0.3)"
  by (simp add: inheritance_daneel_def)

end
